theory Spec2Isabelle
  imports Complex_Main "HOL-Library.Word" "HOL-Library.Sublist"
begin

section \<open>JavaScript values used by \<open>src/index.js\<close>\<close>

text \<open>
  The bytes of an \<open>ImageData.data\<close> buffer (a \<open>Uint8ClampedArray\<close>) are 8-bit words.
  A JavaScript number that the program computes from them is modelled as an exact
  rational; \<open>NaN\<close> is what \<open>undefined / 255\<close> evaluates to, and \<open>Undefined\<close> is what a
  hole of a sparse array reads as.
\<close>

type_synonym byte = "8 word"

datatype jsval = Num rat | NaN | Undefined

text \<open>\<open>a[k] = v\<close> on a JavaScript array: in range it overwrites, beyond the end it
  extends the array, leaving holes.\<close>

definition js_put :: "jsval list \<Rightarrow> nat \<Rightarrow> jsval \<Rightarrow> jsval list" where
  "js_put a k v =
     (if k < length a then a[k := v]
      else a @ replicate (k - length a) Undefined @ [v])"

text \<open>\<open>data[j] / 255\<close>: a read beyond the buffer gives \<open>undefined\<close>, whose quotient is
  \<open>NaN\<close>.\<close>

definition div255 :: "byte list \<Rightarrow> nat \<Rightarrow> jsval" where
  "div255 data j =
     (if j < length data then Num (of_nat (unat (data ! j)) / 255) else NaN)"

section \<open>Tensor encoder (index.js, lines 356-360)\<close>

text \<open>
  \<^verbatim>\<open>
  let input = [];
  for (let i = 0, len = data.length; i < len; i += 4) {
    input[i / 4] = data[i + 3] / 255
  }
  \<close>
  The counter starts at 0 and grows by 4, so \<open>i / 4\<close> is always the integer quotient.
\<close>

function encode_loop :: "byte list \<Rightarrow> nat \<Rightarrow> jsval list \<Rightarrow> jsval list" where
  "encode_loop data i input =
     (if i < length data
      then encode_loop data (i + 4) (js_put input (i div 4) (div255 data (i + 3)))
      else input)"
  by pat_completeness auto
termination
  by (relation "measure (\<lambda>(data, i, input). length data - i)") auto

definition tensor_encoder :: "byte list \<Rightarrow> jsval list" where
  "tensor_encoder data = encode_loop data 0 []"

section \<open>Errors\<close>

text \<open>
  A thrown exception is a value: \<open>TypeError\<close> is what reading a property of
  \<open>undefined\<close> or spreading \<open>undefined\<close> throws, \<open>IndexSizeError\<close> what
  \<open>getImageData\<close> throws for an empty rectangle, \<open>Error msg\<close> a \<open>new Error(msg)\<close>.
  A handler returns its outcome together with the state it leaves behind, because
  what it mutated before throwing stays mutated.
\<close>

datatype error = TypeError | IndexSizeError | Error string

type_synonym 'a result = "error + 'a"

section \<open>Canvases\<close>

type_synonym point = "rat \<times> rat"

datatype path_cmd = MoveTo point | QuadraticCurveTo point point | LineTo point

record imagedata =
  width :: nat
  height :: nat
  data :: "byte list"

record context2d =
  bitmap :: imagedata
  lineWidth :: nat
  lineJoin :: string
  lineCap :: string
  strokeStyle :: string
  path :: "path_cmd list"

section \<open>Models, tensors and the collaborators of index.js\<close>

datatype layer =
    Conv2d "nat list option" nat nat string
  | MaxPooling2d nat nat
  | Flatten "nat list option"
  | Dense nat string

text \<open>A \<open>tf.Model\<close>: its layer stack and whether \<open>train\<close> has compiled and fitted it.
  The weights that fitting computes are not modelled.\<close>

record tfmodel =
  layers :: "layer list"
  compiled :: bool
  trained :: bool

datatype tensor = Tensor "nat list" "jsval list"

text \<open>The calls that leave the program: \<open>model.predict\<close>, \<open>ui.updatePredict\<close> and
  \<open>ui.showTestResults\<close>, recorded in the order they are made.\<close>

datatype call =
    Predict tfmodel tensor
  | UpdatePredict "jsval list"
  | ShowTestResults "jsval list"

text \<open>
  What the browser, TensorFlow.js and the modules \<open>./math\<close> and \<open>./data\<close> compute is a
  parameter of the model:
  \<^item> \<open>stroke_bitmap\<close>: the pixels of the canvas after \<open>ctx.stroke()\<close> has painted the
    current path with the current line settings;
  \<^item> \<open>centerCrop\<close>: \<open>mathUtils.centerCrop\<close>;
  \<^item> \<open>drawScaled\<close>: lines 348-353, the pixels \<open>getImageData\<close> reads from the scaled
    canvas after \<open>scale\<close>, \<open>clearRect\<close> and \<open>drawImage\<close> of the cropped canvas (what
    the scaled canvas holds when one of them throws is not tracked);
  \<^item> \<open>tensor4d\<close>: \<open>tf.tensor4d(values, shape)\<close>;
  \<^item> \<open>predict\<close>: \<open>model.predict(input)\<close> followed by reading the output's data;
  \<^item> \<open>mnist_load\<close>: \<open>new MnistData().load()\<close>, giving the test examples.
\<close>

record env =
  stroke_bitmap :: "context2d \<Rightarrow> byte list"
  centerCrop :: "imagedata \<Rightarrow> imagedata result"
  drawScaled :: "imagedata \<Rightarrow> imagedata \<Rightarrow> (byte list) result"
  tensor4d :: "jsval list \<Rightarrow> nat list \<Rightarrow> tensor result"
  predict :: "tfmodel \<Rightarrow> tensor \<Rightarrow> (jsval list) result"
  mnist_load :: "tensor result"

section \<open>The state of the page\<close>

text \<open>
  \<open>canvas_store\<close> (\<open>strokes\<close>, \<open>drawing\<close>), the globals \<open>model\<close> and \<open>data\<close>
  (\<open>mnist_data\<close>; \<open>None\<close> while it is undefined or not loaded), the IndexedDB model
  store, the three canvases, and the calls made so far.
\<close>

record state =
  strokes :: "point list list"
  drawing :: bool
  model :: "tfmodel option"
  mnist_data :: "tensor option"
  storage :: "string \<rightharpoonup> tfmodel"
  input_canvas :: context2d
  centercrop_canvas :: imagedata
  scaled_canvas :: imagedata
  calls :: "call list"

section \<open>Model creation, training and persistence (index.js, lines 35-320)\<close>

text \<open>Modelled from the spec: the constants \<open>IMAGE_H\<close> and \<open>IMAGE_W\<close> of \<open>./data\<close>, which is
  not among the sources; the spec fixes the input grid at 28 by 28.\<close>

definition IMAGE_H :: nat where "IMAGE_H = 28"
definition IMAGE_W :: nat where "IMAGE_W = 28"

definition createConvModel :: tfmodel where
  "createConvModel = \<lparr>layers =
      [Conv2d (Some [IMAGE_H, IMAGE_W, 1]) 3 16 ''relu'',
       MaxPooling2d 2 2,
       Conv2d None 3 32 ''relu'',
       MaxPooling2d 2 2,
       Conv2d None 3 32 ''relu'',
       Flatten None,
       Dense 64 ''relu'',
       Dense 10 ''softmax''],
     compiled = False, trained = False\<rparr>"

definition createDenseModel :: tfmodel where
  "createDenseModel = \<lparr>layers =
      [Flatten (Some [IMAGE_H, IMAGE_W, 1]),
       Dense 42 ''relu'',
       Dense 10 ''softmax''],
     compiled = False, trained = False\<rparr>"

text \<open>\<open>train(model)\<close> compiles and fits the model object in place.\<close>

definition train :: "tfmodel \<Rightarrow> tfmodel" where
  "train m = m\<lparr>compiled := True, trained := True\<rparr>"

text \<open>\<open>createModel()\<close>; the argument is what \<open>ui.getModelTypeId()\<close> returns.\<close>

definition createModel :: "string \<Rightarrow> tfmodel result" where
  "createModel modelType =
     (if modelType = ''ConvNet'' then Inr createConvModel
      else if modelType = ''DenseNet'' then Inr createDenseModel
      else Inl (Error (''Invalid model type: '' @ modelType)))"

text \<open>\<open>tf.loadModel(key)\<close> rejects when nothing is stored under the key;
  \<open>model.save(key)\<close> stores the model under it.\<close>

definition loadModel :: "state \<Rightarrow> string \<Rightarrow> tfmodel result" where
  "loadModel st key =
     (case storage st key of
        None \<Rightarrow> Inl (Error (''Cannot find model with path '' @ key))
      | Some m \<Rightarrow> Inr m)"

definition save :: "string \<Rightarrow> tfmodel \<Rightarrow> state \<Rightarrow> state" where
  "save key m st = st\<lparr>storage := (storage st)(key \<mapsto> m)\<rparr>"

text \<open>\<open>load()\<close>: \<open>data = new MnistData(); await data.load()\<close>.\<close>

definition load :: "env \<Rightarrow> state \<Rightarrow> unit result \<times> state" where
  "load env st =
     (case mnist_load env of
        Inl e \<Rightarrow> (Inl e, st\<lparr>mnist_data := None\<rparr>)
      | Inr d \<Rightarrow> (Inr (), st\<lparr>mnist_data := Some d\<rparr>))"

text \<open>\<open>showPredictions(model)\<close>: \<open>data.getTestData\<close> on an undefined \<open>data\<close> and
  \<open>model.predict\<close> on an undefined \<open>model\<close> throw a TypeError.\<close>

definition showPredictions :: "env \<Rightarrow> tfmodel option \<Rightarrow> state \<Rightarrow> unit result \<times> state" where
  "showPredictions env mo st =
     (case mnist_data st of
        None \<Rightarrow> (Inl TypeError, st)
      | Some xs \<Rightarrow>
         (case mo of
            None \<Rightarrow> (Inl TypeError, st)
          | Some m \<Rightarrow>
             (let st1 = st\<lparr>calls := calls st @ [Predict m xs]\<rparr>
              in case predict env m xs of
                   Inl e \<Rightarrow> (Inl e, st1)
                 | Inr out \<Rightarrow> (Inr (), st1\<lparr>calls := calls st1 @ [ShowTestResults out]\<rparr>))))"

text \<open>The train button (lines 269-289). \<open>showPredictions\<close> is called without \<open>await\<close>:
  what it throws rejects its own promise and not the callback's.\<close>

definition trainButtonCallback :: "env \<Rightarrow> string \<Rightarrow> state \<Rightarrow> unit result \<times> state" where
  "trainButtonCallback env modelType st =
     (case load env st of
        (Inl e, st1) \<Rightarrow> (Inl e, st1)
      | (Inr _, st1) \<Rightarrow>
         (case createModel modelType of
            Inl e \<Rightarrow> (Inl e, st1)
          | Inr m0 \<Rightarrow>
             (let m = train m0;
                  st2 = st1\<lparr>model := Some m\<rparr>;
                  st3 = (if modelType = ''ConvNet''
                         then save ''indexeddb://my-model-1'' m st2
                         else save ''indexeddb://my-model-2'' m st2)
              in (Inr (), snd (showPredictions env (model st3) st3)))))"

text \<open>The load button (lines 291-320): the \<open>try\<close> block loads the cached model of the
  selected type, the \<open>catch\<close> block creates, trains and saves one.\<close>

definition loadButtonCallback :: "env \<Rightarrow> string \<Rightarrow> state \<Rightarrow> unit result \<times> state" where
  "loadButtonCallback env modelType st =
     (case load env st of
        (Inl e, st1) \<Rightarrow> (Inl e, st1)
      | (Inr _, st1) \<Rightarrow>
         (case (if modelType = ''ConvNet''
                then loadModel st1 ''indexeddb://my-model-1''
                else loadModel st1 ''indexeddb://my-model-2'') of
            Inr cache \<Rightarrow> (Inr (), st1\<lparr>model := Some cache\<rparr>)
          | Inl _ \<Rightarrow>
             (case createModel modelType of
                Inl e \<Rightarrow> (Inl e, st1)
              | Inr m0 \<Rightarrow>
                 (let m = train m0;
                      st2 = st1\<lparr>model := Some m\<rparr>;
                      st3 = save ''indexeddb://my-model-1'' m st2
                  in (Inr (), snd (showPredictions env (model st3) st3))))))"

text \<open>The predict button (lines 322-324). As in the other two callbacks,
  \<open>showPredictions(model)\<close> is called without \<open>await\<close> and its promise is not returned:
  the callback itself completes normally whatever \<open>showPredictions\<close> throws.\<close>

definition predictButtonCallback :: "env \<Rightarrow> state \<Rightarrow> unit result \<times> state" where
  "predictButtonCallback env st = (Inr (), snd (showPredictions env (model st) st))"

section \<open>Canvas operations\<close>

text \<open>\<open>ctx.clearRect(0, 0, ctx.canvas.width, ctx.canvas.height)\<close> under the identity
  transform: every pixel becomes transparent black.\<close>

definition clearImage :: "imagedata \<Rightarrow> imagedata" where
  "clearImage img = img\<lparr>data := replicate (4 * width img * height img) 0\<rparr>"

definition clearRect :: "context2d \<Rightarrow> context2d" where
  "clearRect ctx = ctx\<lparr>bitmap := clearImage (bitmap ctx)\<rparr>"

definition beginPath :: "context2d \<Rightarrow> context2d" where
  "beginPath ctx = ctx\<lparr>path := []\<rparr>"

definition moveTo :: "point \<Rightarrow> context2d \<Rightarrow> context2d" where
  "moveTo p ctx = ctx\<lparr>path := path ctx @ [MoveTo p]\<rparr>"

definition quadraticCurveTo :: "point \<Rightarrow> point \<Rightarrow> context2d \<Rightarrow> context2d" where
  "quadraticCurveTo c p ctx = ctx\<lparr>path := path ctx @ [QuadraticCurveTo c p]\<rparr>"

definition lineTo :: "point \<Rightarrow> context2d \<Rightarrow> context2d" where
  "lineTo p ctx = ctx\<lparr>path := path ctx @ [LineTo p]\<rparr>"

definition stroke :: "env \<Rightarrow> context2d \<Rightarrow> context2d" where
  "stroke env ctx = ctx\<lparr>bitmap := (bitmap ctx)\<lparr>data := stroke_bitmap env ctx\<rparr>\<rparr>"

text \<open>\<open>ctx.getImageData(0, 0, ctx.canvas.width, ctx.canvas.height)\<close>: the whole bitmap;
  an empty rectangle throws.\<close>

definition getImageData :: "imagedata \<Rightarrow> imagedata result" where
  "getImageData img =
     (if width img = 0 \<or> height img = 0 then Inl IndexSizeError else Inr img)"

section \<open>Stroke recorder and canvas renderer (index.js, lines 327-333 and 367-409)\<close>

text \<open>\<open>xs[i]\<close> on a JavaScript array: \<open>None\<close> is \<open>undefined\<close>.\<close>

definition js_nth :: "'a list \<Rightarrow> nat \<Rightarrow> 'a option" where
  "js_nth xs i = (if i < length xs then Some (xs ! i) else None)"

definition midpoint :: "point \<Rightarrow> point \<Rightarrow> point" where
  "midpoint p q = ((fst p + fst q) / 2, (snd p + snd q) / 2)"

text \<open>Modelled from the spec: \<open>mathUtils.getMidpoint\<close> of \<open>./math\<close>, which is not among the
  sources: the midpoint between two points. Reading the coordinates of an undefined
  argument throws.\<close>

definition getMidpoint :: "point option \<Rightarrow> point option \<Rightarrow> point result" where
  "getMidpoint p1 p2 =
     (case p1 of
        None \<Rightarrow> Inl TypeError
      | Some a \<Rightarrow> (case p2 of None \<Rightarrow> Inl TypeError | Some b \<Rightarrow> Inr (midpoint a b)))"

text \<open>
  The pointer-down handler. The event is represented by the point
  \<open>mathUtils.getCoordinates(e)\<close> extracts from it.
  \<^verbatim>\<open>
  canvas_store.drawing = true;
  canvas_store.strokes.push([mathUtils.getCoordinates(e)]);
  \<close>
\<close>

definition activateDraw :: "point \<Rightarrow> state \<Rightarrow> state" where
  "activateDraw e st = st\<lparr>drawing := True, strokes := strokes st @ [[e]]\<rparr>"

text \<open>
  The inner loop of \<open>draw\<close>; it returns the last value of \<open>p1\<close>.
  \<^verbatim>\<open>
  for (let i = 1, len = points.length; i < len; i++) {
    ctx.quadraticCurveTo(...p1, ...mathUtils.getMidpoint(p1, p2))
    p1 = points[i]
    p2 = points[i + 1]
  }
  \<close>
\<close>

function draw_points ::
  "point list \<Rightarrow> nat \<Rightarrow> point option \<Rightarrow> point option \<Rightarrow> context2d
     \<Rightarrow> (point option) result \<times> context2d" where
  "draw_points points i p1 p2 ctx =
     (if i < length points
      then (case p1 of
              None \<Rightarrow> (Inl TypeError, ctx)
            | Some a \<Rightarrow>
               (case getMidpoint p1 p2 of
                  Inl e \<Rightarrow> (Inl e, ctx)
                | Inr m \<Rightarrow>
                   draw_points points (i + 1) (js_nth points i) (js_nth points (i + 1))
                     (quadraticCurveTo a m ctx)))
      else (Inr p1, ctx))"
  by pat_completeness auto
termination
  by (relation "measure (\<lambda>(points, i, p1, p2, ctx). length points - i)") auto

text \<open>
  The body of the outer loop: one stroke.
  \<^verbatim>\<open>
  let p1 = points[0]
  let p2 = points[1]
  ctx.beginPath()
  ctx.moveTo(...p1)
  for ...
  ctx.lineTo(...p1)
  ctx.stroke()
  \<close>
\<close>

definition draw_stroke :: "env \<Rightarrow> point list \<Rightarrow> context2d \<Rightarrow> unit result \<times> context2d" where
  "draw_stroke env points ctx =
     (let p1 = js_nth points 0;
          p2 = js_nth points 1;
          ctx1 = beginPath ctx
      in case p1 of
           None \<Rightarrow> (Inl TypeError, ctx1)
         | Some a \<Rightarrow>
            (case draw_points points 1 p1 p2 (moveTo a ctx1) of
               (Inl e, ctx2) \<Rightarrow> (Inl e, ctx2)
             | (Inr None, ctx2) \<Rightarrow> (Inl TypeError, ctx2)
             | (Inr (Some b), ctx2) \<Rightarrow> (Inr (), stroke env (lineTo b ctx2))))"

text \<open>\<open>for (let s = 0, slen = canvas_store.strokes.length; s < slen; s++)\<close>\<close>

function draw_strokes ::
  "env \<Rightarrow> point list list \<Rightarrow> nat \<Rightarrow> context2d \<Rightarrow> unit result \<times> context2d" where
  "draw_strokes env strks s ctx =
     (if s < length strks
      then (case draw_stroke env (strks ! s) ctx of
              (Inl e, ctx1) \<Rightarrow> (Inl e, ctx1)
            | (Inr _, ctx1) \<Rightarrow> draw_strokes env strks (s + 1) ctx1)
      else (Inr (), ctx))"
  by pat_completeness auto
termination
  by (relation "measure (\<lambda>(env, strks, s, ctx). length strks - s)") auto

text \<open>The pointer-move handler \<open>draw\<close>. \<open>canvas_store.strokes[length - 1]\<close> is undefined
  when there is no stroke, and \<open>points.push\<close> then throws.\<close>

definition draw :: "env \<Rightarrow> point \<Rightarrow> state \<Rightarrow> unit result \<times> state" where
  "draw env e st =
     (if \<not> drawing st then (Inr (), st)
      else
        (let ctx = clearRect ((input_canvas st)\<lparr>lineWidth := 20, lineJoin := ''round'',
                      lineCap := ''round'', strokeStyle := ''#393E46''\<rparr>);
             st1 = st\<lparr>input_canvas := ctx\<rparr>
         in if strokes st1 = [] then (Inl TypeError, st1)
            else
              (let st2 = st1\<lparr>strokes := butlast (strokes st1) @ [last (strokes st1) @ [e]]\<rparr>
               in case draw_strokes env (strokes st2) 0 (input_canvas st2) of
                    (r, ctx') \<Rightarrow> (r, st2\<lparr>input_canvas := ctx'\<rparr>))))"

definition clear :: "state \<Rightarrow> state" where
  "clear st = st\<lparr>input_canvas := clearRect (input_canvas st),
                 centercrop_canvas := clearImage (centercrop_canvas st),
                 scaled_canvas := clearImage (scaled_canvas st),
                 strokes := [], drawing := False\<rparr>"

section \<open>The pointer-up handler (index.js, lines 334-366)\<close>

text \<open>
  The function that \<open>_.debounce(..., 200)\<close> wraps; the model is of one run of it.
  Assigning the cropped image's width and height to the crop canvas and putting the
  image at its origin leaves that canvas holding the cropped image.
\<close>

definition deactivateDrawAndPredict :: "env \<Rightarrow> state \<Rightarrow> unit result \<times> state" where
  "deactivateDrawAndPredict env st =
     (if \<not> drawing st then (Inr (), st)
      else
        (let st1 = st\<lparr>drawing := False\<rparr>
         in case getImageData (bitmap (input_canvas st1)) of
              Inl e \<Rightarrow> (Inl e, st1)
            | Inr img \<Rightarrow>
               (case centerCrop env img of
                  Inl e \<Rightarrow> (Inl e, st1)
                | Inr imageDataCenterCrop \<Rightarrow>
                   (let st2 = st1\<lparr>centercrop_canvas := imageDataCenterCrop\<rparr>
                    in case drawScaled env (centercrop_canvas st2) (scaled_canvas st2) of
                         Inl e \<Rightarrow> (Inl e, st2)
                       | Inr px \<Rightarrow>
                          (let st3 = st2\<lparr>scaled_canvas := (scaled_canvas st2)\<lparr>data := px\<rparr>\<rparr>
                           in case tensor4d env (tensor_encoder px) [1, 28, 28, 1] of
                                Inl e \<Rightarrow> (Inl e, st3)
                              | Inr input \<Rightarrow>
                                 (case model st3 of
                                    None \<Rightarrow> (Inl TypeError, st3)
                                  | Some m \<Rightarrow>
                                     (let st4 = st3\<lparr>calls := calls st3 @ [Predict m input]\<rparr>
                                      in case predict env m input of
                                           Inl e \<Rightarrow> (Inl e, st4)
                                         | Inr out \<Rightarrow>
                                            (Inr (),
                                             st4\<lparr>calls := calls st4 @ [UpdatePredict out]\<rparr>))))))))"

section \<open>Image layout and concrete inputs\<close>

text \<open>An \<open>ImageData\<close> stores its pixels row by row, four bytes (red, green, blue,
  alpha) per pixel: the alpha byte of the pixel in column \<open>x\<close> of row \<open>y\<close>.\<close>

definition alpha_at :: "imagedata \<Rightarrow> nat \<Rightarrow> nat \<Rightarrow> byte" where
  "alpha_at img x y = data img ! (4 * (y * width img + x) + 3)"

text \<open>A buffer of \<open>n\<close> pixels, each with colour bytes \<open>c\<close> and alpha \<open>a\<close>.\<close>

definition rgba_fill :: "byte \<Rightarrow> byte \<Rightarrow> nat \<Rightarrow> byte list" where
  "rgba_fill c a n = map (\<lambda>j. if j mod 4 = 3 then a else c) [0 ..< 4 * n]"

text \<open>A small page for concrete runs: a 2 by 2 drawing canvas, a 28 by 28 scaled
  canvas, a trained convolutional model, and collaborators that paint every pixel
  opaque when a non-empty path is stroked, crop nothing, scale a transparent image to
  a transparent one and any other to an opaque one, accept a tensor whose number of
  values matches its shape, and predict the uniform distribution.\<close>

definition ctx0 :: context2d where
  "ctx0 = \<lparr>bitmap = \<lparr>width = 2, height = 2, data = replicate 16 0\<rparr>,
           lineWidth = 1, lineJoin = ''miter'', lineCap = ''butt'',
           strokeStyle = ''#000000'', path = []\<rparr>"

definition env0 :: env where
  "env0 = \<lparr>stroke_bitmap =
             (\<lambda>ctx. if path ctx = [] then data (bitmap ctx)
                    else replicate (length (data (bitmap ctx))) 255),
           centerCrop = (\<lambda>img. Inr img),
           drawScaled =
             (\<lambda>crop sc. Inr (replicate (4 * width sc * height sc)
                                (if set (data crop) \<subseteq> {0} then 0 else 255))),
           tensor4d =
             (\<lambda>v sh. if length v = prod_list sh then Inr (Tensor sh v)
                     else Inl (Error ''shape'')),
           predict = (\<lambda>m t. Inr (replicate 10 (Num (1 / 10)))),
           mnist_load = Inr (Tensor [0, 28, 28, 1] [])\<rparr>"

definition st0 :: state where
  "st0 = \<lparr>strokes = [], drawing = False, model = Some (train createConvModel),
          mnist_data = None, storage = Map.empty, input_canvas = ctx0,
          centercrop_canvas = \<lparr>width = 2, height = 2, data = replicate 16 0\<rparr>,
          scaled_canvas = \<lparr>width = 28, height = 28, data = replicate 3136 0\<rparr>,
          calls = []\<rparr>"

text \<open>The curve segment that starts at the \<open>k\<close>-th point of a stroke.\<close>

definition segment :: "point list \<Rightarrow> nat \<Rightarrow> path_cmd" where
  "segment ps k = QuadraticCurveTo (ps ! k) (midpoint (ps ! k) (ps ! (k + 1)))"

section \<open>Event sequences\<close>

text \<open>Modelled from the spec: \<open>ui.setCanvasInput\<close> of \<open>./ui\<close>, which is not among the
  sources, attaches the four handlers to pointer-down, pointer-up, pointer-move and the
  clear button. \<open>PointerUp\<close> stands for one run of the debounced pointer-up handler.
  \<open>step\<close> gives the state a handler leaves behind, whatever its outcome.\<close>

datatype event = PointerDown point | PointerMove point | PointerUp | Clear

fun step :: "env \<Rightarrow> state \<Rightarrow> event \<Rightarrow> state" where
  "step env st (PointerDown e) = activateDraw e st"
| "step env st (PointerMove e) = snd (draw env e st)"
| "step env st PointerUp = snd (deactivateDrawAndPredict env st)"
| "step env st Clear = clear st"

definition run :: "env \<Rightarrow> state \<Rightarrow> event list \<Rightarrow> state" where
  "run env st evs = foldl (step env) st evs"

text \<open>The strokes \<open>old\<close> are all still there in \<open>new\<close>, at their positions, each
  with the points it had (possibly followed by more).\<close>

definition persists :: "point list list \<Rightarrow> point list list \<Rightarrow> bool" where
  "persists old new =
     (length old \<le> length new \<and> list_all2 prefix old (take (length old) new))"

text \<open>No pixel of the image has ink: every alpha byte is zero.\<close>

definition no_ink :: "imagedata \<Rightarrow> bool" where
  "no_ink img = list_all (\<lambda>j. data img ! (4 * j + 3) = 0) [0 ..< length (data img) div 4]"

text \<open>A tap on the fresh page: pointer-down without a move, so nothing has been
  painted when the pointer goes up. The second state is the same tap on a page where
  the MNIST data is loaded and \<open>model\<close> is still undefined.\<close>

definition blank_tap :: state where
  "blank_tap = activateDraw (0, 0) st0"

definition no_model_tap :: state where
  "no_model_tap =
     activateDraw (0, 0) (st0\<lparr>model := None, mnist_data := Some (Tensor [0, 28, 28, 1] [])\<rparr>)"

section \<open>The path of a stroke\<close>

text \<open>The path the renderer builds for a non-empty stroke, and the canvas after that
  path has been stroked.\<close>

definition stroke_path :: "point list \<Rightarrow> path_cmd list" where
  "stroke_path ps =
     [MoveTo (ps ! 0)] @ map (segment ps) [0 ..< length ps - 1] @ [LineTo (last ps)]"

definition render_stroke :: "env \<Rightarrow> context2d \<Rightarrow> point list \<Rightarrow> context2d" where
  "render_stroke env ctx ps = stroke env (ctx\<lparr>path := stroke_path ps\<rparr>)"

text \<open>The line settings \<open>draw\<close> assigns before it renders (lines 371-373).\<close>

definition pen_settings :: "context2d \<Rightarrow> context2d" where
  "pen_settings ctx = ctx\<lparr>lineWidth := 20, lineJoin := ''round'', lineCap := ''round'',
                         strokeStyle := ''#393E46''\<rparr>"

text \<open>A tap, its pointer-up handled, then a second pointer-down.\<close>

definition tap_then_down :: state where
  "tap_then_down = activateDraw (1, 1) (snd (deactivateDrawAndPredict env0 blank_tap))"

section \<open>The debounced pointer-up handler (index.js, lines 334 and 367)\<close>














section \<open>Properties of the tensor encoder\<close>

lemma js_put_end: "js_put a (length a) v = a @ [v]"
  by (simp add: js_put_def)

lemma encode_loop_unfold:
  "encode_loop buf i input =
     (if i < length buf
      then encode_loop buf (i + 4) (js_put input (i div 4) (div255 buf (i + 3)))
      else input)"
  by (rule encode_loop.simps)

declare encode_loop.simps [simp del]

lemma encode_loop_closed:
  "encode_loop buf (4 * length input) input =
     input @ map (\<lambda>j. div255 buf (4 * j + 3)) [length input ..< (length buf + 3) div 4]"
proof (induction "(length buf + 3) div 4 - length input" arbitrary: input)
  case 0
  then have "\<not> 4 * length input < length buf" by linarith
  moreover from 0 have "[length input ..< (length buf + 3) div 4] = []" by simp
  ultimately show ?case by (subst encode_loop_unfold) simp
next
  case (Suc n)
  let ?v = "div255 buf (4 * length input + 3)"
  from Suc.hyps(2) have lt: "4 * length input < length buf" by linarith
  then have kn: "length input < (length buf + 3) div 4" by linarith
  have "encode_loop buf (4 * length input) input =
      encode_loop buf (4 * length input + 4) (input @ [?v])"
    using lt by (subst encode_loop_unfold) (simp add: js_put_end)
  also have "4 * length input + 4 = 4 * length (input @ [?v])" by simp
  also have "encode_loop buf (4 * length (input @ [?v])) (input @ [?v]) =
      (input @ [?v]) @
        map (\<lambda>j. div255 buf (4 * j + 3))
          [length (input @ [?v]) ..< (length buf + 3) div 4]"
    using Suc.hyps(2) by (intro Suc.hyps(1)) simp
  finally show ?case using kn by (simp add: upt_conv_Cons)
qed

lemma tensor_encoder_closed:
  "tensor_encoder buf =
     map (\<lambda>j. div255 buf (4 * j + 3)) [0 ..< (length buf + 3) div 4]"
  using encode_loop_closed [of buf "[]"] by (simp add: tensor_encoder_def)

lemma tensor_encoder_length: "length (tensor_encoder buf) = (length buf + 3) div 4"
  by (simp add: tensor_encoder_closed)

lemma tensor_encoder_nth:
  "i < (length buf + 3) div 4 \<Longrightarrow> tensor_encoder buf ! i = div255 buf (4 * i + 3)"
  by (simp add: tensor_encoder_closed)

lemma unat_byte_le: "unat (b :: byte) \<le> 255"
  using unsigned_less [of b, where ?'a = nat] by simp

lemma div255_range:
  assumes "j < length buf"
  shows "\<exists>q. div255 buf j = Num q \<and> 0 \<le> q \<and> q \<le> 1"
proof -
  let ?q = "rat_of_nat (unat (buf ! j)) / 255"
  have "rat_of_nat (unat (buf ! j)) \<le> rat_of_nat 255"
    using unat_byte_le [of "buf ! j"] by (simp only: of_nat_le_iff)
  then have "?q \<le> 1" by simp
  moreover have "0 \<le> rat_of_nat (unat (buf ! j))" by (rule of_nat_0_le_iff)
  then have "0 \<le> ?q" by (rule divide_nonneg_nonneg) simp
  moreover have "div255 buf j = Num ?q" using assms by (simp add: div255_def)
  ultimately show ?thesis by blast
qed

text \<open>
  Claim C1. On the buffer of a 28 by 28 RGBA image the tensor encoder returns 784
  values; the \<open>i\<close>-th is the alpha byte of the \<open>i\<close>-th pixel divided by 255, pixels
  counted row by row; every value lies between 0 and 1; a fully transparent image
  gives 784 zeros and a fully opaque one 784 ones.
\<close>

theorem tensor_encoder_alpha:
  assumes w: "width img = 28" and h: "height img = 28"
    and len: "length (data img) = 4 * width img * height img"
  shows "length (tensor_encoder (data img)) = 784 \<and>
    (\<forall>i<784. tensor_encoder (data img) ! i
        = Num (of_nat (unat (data img ! (4 * i + 3))) / 255)) \<and>
    (\<forall>y<28. \<forall>x<28. tensor_encoder (data img) ! (y * 28 + x)
        = Num (of_nat (unat (alpha_at img x y)) / 255)) \<and>
    (\<forall>v\<in>set (tensor_encoder (data img)). \<exists>q. v = Num q \<and> 0 \<le> q \<and> q \<le> 1) \<and>
    ((\<forall>i<784. data img ! (4 * i + 3) = 0)
        \<longrightarrow> tensor_encoder (data img) = replicate 784 (Num 0)) \<and>
    ((\<forall>i<784. data img ! (4 * i + 3) = 255)
        \<longrightarrow> tensor_encoder (data img) = replicate 784 (Num 1))"
proof -
  let ?d = "data img"
  from w h len have l: "length ?d = 3136" by simp
  then have n: "(length ?d + 3) div 4 = 784" by simp
  have L: "length (tensor_encoder ?d) = 784"
    by (simp add: tensor_encoder_length n)
  have N: "tensor_encoder ?d ! i = Num (of_nat (unat (?d ! (4 * i + 3))) / 255)"
    if "i < 784" for i
    using that l by (simp add: tensor_encoder_nth n div255_def)
  have RM: "tensor_encoder ?d ! (y * 28 + x) = Num (of_nat (unat (alpha_at img x y)) / 255)"
    if "y < 28" "x < 28" for x y
  proof -
    from that have "y * 28 + x < 784" by linarith
    then show ?thesis using w by (simp add: N alpha_at_def)
  qed
  have R: "\<exists>q. v = Num q \<and> 0 \<le> q \<and> q \<le> 1" if "v \<in> set (tensor_encoder ?d)" for v
  proof -
    from that L obtain i where i: "i < 784" and v: "v = tensor_encoder ?d ! i"
      by (metis in_set_conv_nth)
    from i l have "4 * i + 3 < length ?d" by simp
    from div255_range [OF this] show ?thesis
      using i v by (simp add: tensor_encoder_nth n)
  qed
  have Z: "tensor_encoder ?d = replicate 784 (Num 0)"
    if "\<forall>i<784. ?d ! (4 * i + 3) = 0"
    using that L by (intro nth_equalityI) (simp_all add: N)
  have O: "tensor_encoder ?d = replicate 784 (Num 1)"
    if "\<forall>i<784. ?d ! (4 * i + 3) = 255"
    using that L by (intro nth_equalityI) (simp_all add: N)
  from L N RM R Z O show ?thesis by blast
qed

theorem tensor_encoder_alpha_witness:
  "tensor_encoder (data \<lparr>width = 28, height = 28, data = replicate 3136 255\<rparr>)
     = replicate 784 (Num 1)"
  using tensor_encoder_alpha [of "\<lparr>width = 28, height = 28, data = replicate 3136 255\<rparr>"]
  by simp

text \<open>
  Claim C10. Two buffers of the same size that agree on every alpha byte (the bytes
  at offsets 3, 7, 11, ...) are encoded to the same vector, whatever their red,
  green and blue bytes are.
\<close>

theorem tensor_encoder_ignores_rgb:
  assumes "length a = length b"
    and "\<forall>j<length a. j mod 4 = 3 \<longrightarrow> a ! j = b ! j"
  shows "tensor_encoder a = tensor_encoder b"
proof -
  have "div255 a (4 * j + 3) = div255 b (4 * j + 3)" for j
    using assms by (simp add: div255_def)
  then show ?thesis using assms(1) by (simp add: tensor_encoder_closed)
qed

theorem tensor_encoder_ignores_rgb_witness:
  "rgba_fill 10 200 784 \<noteq> rgba_fill 77 200 784 \<and>
   tensor_encoder (rgba_fill 10 200 784) = tensor_encoder (rgba_fill 77 200 784)"
proof -
  have "rgba_fill 10 200 784 ! 0 \<noteq> rgba_fill 77 200 784 ! 0"
    by (simp add: rgba_fill_def)
  then have "rgba_fill 10 200 784 \<noteq> rgba_fill 77 200 784" by metis
  moreover have "tensor_encoder (rgba_fill 10 200 784) = tensor_encoder (rgba_fill 77 200 784)"
    using tensor_encoder_ignores_rgb [of "rgba_fill 10 200 784" "rgba_fill 77 200 784"]
    by (simp add: rgba_fill_def)
  ultimately show ?thesis by simp
qed

section \<open>Properties of the stroke recorder and the canvas renderer\<close>

lemma draw_points_unfold:
  "draw_points points i p1 p2 ctx =
     (if i < length points
      then (case p1 of
              None \<Rightarrow> (Inl TypeError, ctx)
            | Some a \<Rightarrow>
               (case getMidpoint p1 p2 of
                  Inl e \<Rightarrow> (Inl e, ctx)
                | Inr m \<Rightarrow>
                   draw_points points (i + 1) (js_nth points i) (js_nth points (i + 1))
                     (quadraticCurveTo a m ctx)))
      else (Inr p1, ctx))"
  by (rule draw_points.simps)

declare draw_points.simps [simp del]

lemma draw_points_closed:
  "k < length ps \<Longrightarrow>
   draw_points ps (Suc k) (Some (ps ! k)) (js_nth ps (Suc k)) ctx =
     (Inr (Some (last ps)),
      ctx\<lparr>path := path ctx @ map (segment ps) [k ..< length ps - 1]\<rparr>)"
proof (induction "length ps - Suc k" arbitrary: k ctx)
  case 0
  then have k: "Suc k = length ps" by linarith
  then have "ps \<noteq> []" by auto
  with k [symmetric] have "last ps = ps ! k" by (simp add: last_conv_nth)
  moreover from k have "[k ..< length ps - 1] = []" by simp
  ultimately show ?case using k by (subst draw_points_unfold) simp
next
  case (Suc n)
  then have lt: "Suc k < length ps" by linarith
  let ?c = "quadraticCurveTo (ps ! k) (midpoint (ps ! k) (ps ! Suc k)) ctx"
  have "draw_points ps (Suc k) (Some (ps ! k)) (js_nth ps (Suc k)) ctx =
        draw_points ps (Suc (Suc k)) (Some (ps ! Suc k)) (js_nth ps (Suc (Suc k))) ?c"
    using lt by (subst draw_points_unfold) (simp add: js_nth_def getMidpoint_def)
  also have "\<dots> = (Inr (Some (last ps)),
      ?c\<lparr>path := path ?c @ map (segment ps) [Suc k ..< length ps - 1]\<rparr>)"
    using Suc.hyps(2) lt by (intro Suc.hyps(1)) simp_all
  also have "?c\<lparr>path := path ?c @ map (segment ps) [Suc k ..< length ps - 1]\<rparr> =
      ctx\<lparr>path := path ctx @ map (segment ps) [k ..< length ps - 1]\<rparr>"
    using lt by (simp add: quadraticCurveTo_def segment_def upt_conv_Cons)
  finally show ?case .
qed

lemma draw_stroke_closed:
  assumes "ps \<noteq> []"
  shows "draw_stroke env ps ctx =
     (Inr (), stroke env (ctx\<lparr>path :=
        [MoveTo (ps ! 0)] @ map (segment ps) [0 ..< length ps - 1] @ [LineTo (last ps)]\<rparr>))"
proof -
  from assms have l: "0 < length ps" by simp
  have j0: "js_nth ps 0 = Some (ps ! 0)" using l by (simp add: js_nth_def)
  show ?thesis
    unfolding draw_stroke_def Let_def j0
    using draw_points_closed [OF l, of "moveTo (ps ! 0) (beginPath ctx)"]
    by (simp add: moveTo_def beginPath_def lineTo_def)
qed

text \<open>
  Claim C4. A pointer-move that arrives while \<open>drawing\<close> is false is ignored: \<open>draw\<close>
  returns without an error and leaves the whole state (strokes, the flag, the canvas)
  as it was.
\<close>

theorem draw_noop_when_not_drawing:
  "\<not> drawing st \<Longrightarrow> draw env e st = (Inr (), st)"
  by (simp add: draw_def)

theorem draw_noop_when_not_drawing_witness:
  "\<not> drawing st0 \<and> draw env0 (3, 4) st0 = (Inr (), st0)"
  using draw_noop_when_not_drawing [of st0 env0 "(3, 4)"] by (simp add: st0_def)

text \<open>
  Claim C6. For a stroke of at least two points the renderer strokes the path that
  moves to the first point, then, in the order of the points, adds for each point but
  the last a quadratic curve whose control point is that point and whose end point is
  the midpoint between it and the next point, and ends with a line to the last point.
\<close>

theorem draw_stroke_quadratic:
  assumes "2 \<le> length ps"
  shows "draw_stroke env ps ctx =
     (Inr (), stroke env (ctx\<lparr>path :=
        [MoveTo (ps ! 0)]
        @ map (\<lambda>k. QuadraticCurveTo (ps ! k) (midpoint (ps ! k) (ps ! (k + 1))))
            [0 ..< length ps - 1]
        @ [LineTo (last ps)]\<rparr>))"
proof -
  from assms have "ps \<noteq> []" by auto
  from draw_stroke_closed [OF this, of env ctx] show ?thesis
    by (simp add: segment_def [abs_def])
qed

theorem draw_stroke_quadratic_witness:
  "draw_stroke env0 [(0, 0), (2, 0), (2, 2)] ctx0 =
     (Inr (), stroke env0 (ctx0\<lparr>path :=
        [MoveTo (0, 0), QuadraticCurveTo (0, 0) (1, 0), QuadraticCurveTo (2, 0) (2, 1),
         LineTo (2, 2)]\<rparr>))"
  using draw_stroke_quadratic [of "[(0, 0), (2, 0), (2, 2)]" env0 ctx0]
  by (simp add: midpoint_def upt_conv_Cons)

section \<open>Properties of the pointer-up handler\<close>

lemma deactivate_strokes:
  "strokes (snd (deactivateDrawAndPredict env st)) = strokes st"
  by (simp add: deactivateDrawAndPredict_def Let_def split: sum.splits option.splits)

lemma deactivate_drawing:
  "\<not> drawing (snd (deactivateDrawAndPredict env st))"
  by (simp add: deactivateDrawAndPredict_def Let_def split: sum.splits option.splits)

lemma persists_refl: "persists a a"
  by (simp add: persists_def list_all2_same)

lemma persists_trans:
  assumes "persists a b" and "persists b c"
  shows "persists a c"
proof -
  from assms have ab: "length a \<le> length b" and bc: "length b \<le> length c"
    by (simp_all add: persists_def)
  from assms(2) have "list_all2 prefix b (take (length b) c)"
    by (simp add: persists_def)
  then have "list_all2 prefix (take (length a) b) (take (length a) (take (length b) c))"
    by (rule list_all2_takeI)
  with ab have B: "list_all2 prefix (take (length a) b) (take (length a) c)"
    by (simp add: min_def)
  from assms(1) have A: "list_all2 prefix a (take (length a) b)"
    by (simp add: persists_def)
  have "list_all2 prefix a (take (length a) c)"
    by (rule list_all2_trans [OF _ A B]) (rule prefix_order.trans)
  with ab bc show ?thesis by (simp add: persists_def)
qed

lemma persists_new_stroke: "persists ss (ss @ [s])"
  by (simp add: persists_def list_all2_same)

lemma persists_push:
  assumes "ss \<noteq> []"
  shows "persists ss (butlast ss @ [last ss @ [e]])"
proof -
  let ?new = "butlast ss @ [last ss @ [e]]"
  have "list_all2 prefix (butlast ss @ [last ss]) ?new"
    by (intro list_all2_appendI) (simp_all add: list_all2_same)
  with assms have "list_all2 prefix ss ?new" by simp
  moreover from assms have len: "length ?new = length ss" by simp
  then have "take (length ss) ?new = ?new" by (simp only: take_all order_refl)
  ultimately show ?thesis using len by (simp only: persists_def order_refl simp_thms)
qed

lemma draw_strokes_cases:
  "strokes (snd (draw env e st)) = strokes st \<or>
   (strokes st \<noteq> [] \<and>
    strokes (snd (draw env e st)) = butlast (strokes st) @ [last (strokes st) @ [e]])"
  by (simp add: draw_def Let_def split: prod.splits)

lemma step_persists:
  "ev \<noteq> Clear \<Longrightarrow> persists (strokes st) (strokes (step env st ev))"
proof (cases ev)
  case (PointerDown e)
  then show ?thesis by (simp add: activateDraw_def persists_new_stroke)
next
  case (PointerMove e)
  then show ?thesis
    using draw_strokes_cases [of env e st] by (auto simp: persists_refl persists_push)
next
  case PointerUp
  then show ?thesis by (simp add: deactivate_strokes persists_refl)
next
  case Clear
  assume "ev \<noteq> Clear"
  with Clear show ?thesis by simp
qed

lemma run_persists:
  "Clear \<notin> set evs \<Longrightarrow> persists (strokes st) (strokes (run env st evs))"
proof (induction evs arbitrary: st)
  case Nil
  show ?case by (simp add: run_def persists_refl)
next
  case (Cons ev evs)
  then have "persists (strokes st) (strokes (step env st ev))"
    by (intro step_persists) auto
  moreover from Cons have
    "persists (strokes (step env st ev)) (strokes (run env (step env st ev) evs))"
    by simp
  ultimately have "persists (strokes st) (strokes (run env (step env st ev) evs))"
    by (rule persists_trans)
  then show ?case by (simp add: run_def)
qed

text \<open>
  Claim C7. A run of the pointer-up handler leaves \<open>strokes\<close> exactly as it was and
  \<open>drawing\<close> false, whatever happens in the rest of the pipeline; and over any
  sequence of pointer events without a clear, every stroke recorded so far is still
  there afterwards.
\<close>

theorem endStroke_frame:
  "strokes (snd (deactivateDrawAndPredict env st)) = strokes st \<and>
   \<not> drawing (snd (deactivateDrawAndPredict env st)) \<and>
   (Clear \<notin> set evs \<longrightarrow> persists (strokes st) (strokes (run env st evs)))"
  using deactivate_strokes deactivate_drawing run_persists by blast

theorem endStroke_frame_witness:
  "persists (strokes (activateDraw (0, 0) st0))
     (strokes (run env0 (activateDraw (0, 0) st0)
        [PointerUp, PointerDown (1, 1), PointerMove (2, 2), PointerUp]))"
  using endStroke_frame [of env0 "activateDraw (0, 0) st0"
      "[PointerUp, PointerDown (1, 1), PointerMove (2, 2), PointerUp]"]
  by simp

lemma tensor_encoder_transparent:
  "tensor_encoder (replicate (4 * n) 0) = replicate n (Num 0)"
proof -
  have "div255 (replicate (4 * n) 0) (4 * j + 3) = Num 0" if "j < n" for j
    using that by (simp add: div255_def)
  then have "map (\<lambda>j. div255 (replicate (4 * n) 0) (4 * j + 3)) [0 ..< n]
      = map (\<lambda>j. Num 0) [0 ..< n]"
    by (intro map_cong) simp_all
  moreover have "(length (replicate (4 * n) (0 :: byte)) + 3) div 4 = n" by simp
  ultimately show ?thesis
    by (simp only: tensor_encoder_closed) (simp add: map_replicate_const)
qed

lemma blank_tap_run:
  "deactivateDrawAndPredict env0 blank_tap =
     (Inr (),
      blank_tap\<lparr>drawing := False,
        calls := [Predict (train createConvModel)
                    (Tensor [1, 28, 28, 1] (replicate 784 (Num 0))),
                  UpdatePredict (replicate 10 (Num (1 / 10)))]\<rparr>)"
proof -
  have enc: "tensor_encoder (replicate 3136 0) = replicate 784 (Num 0)"
    using tensor_encoder_transparent [of 784] by simp
  show ?thesis
    by (simp add: deactivateDrawAndPredict_def blank_tap_def activateDraw_def st0_def
        env0_def ctx0_def getImageData_def enc)
qed

lemma blank_tap_no_ink: "no_ink (bitmap (input_canvas blank_tap))"
  by (simp add: no_ink_def blank_tap_def activateDraw_def st0_def ctx0_def list_all_iff)

text \<open>
  Claim C2, as stated, fails. After a pointer-down with no move the canvas has no ink,
  and the pointer-up handler still encodes the scaled image and calls \<open>predict\<close> on
  the all-zero vector.
\<close>

theorem blank_canvas_counterexample:
  "no_ink (bitmap (input_canvas blank_tap)) \<and>
   calls blank_tap = [] \<and>
   calls (snd (deactivateDrawAndPredict env0 blank_tap)) =
     [Predict (train createConvModel) (Tensor [1, 28, 28, 1] (replicate 784 (Num 0))),
      UpdatePredict (replicate 10 (Num (1 / 10)))]"
  using blank_tap_run blank_tap_no_ink
  by (simp add: blank_tap_def activateDraw_def st0_def)

text \<open>
  Claim C2, amended. On a canvas without ink the pointer-up handler stops early only if
  \<open>drawing\<close> is false, and then it changes nothing. If \<open>drawing\<close> is true, every run
  that ends without an exception has cropped, scaled and encoded the image and has
  called \<open>predict\<close> exactly once, on the encoded vector, with the model that is loaded.
\<close>

theorem blank_canvas_runs_pipeline:
  assumes "no_ink (bitmap (input_canvas st))"
  shows "(\<not> drawing st \<longrightarrow> deactivateDrawAndPredict env st = (Inr (), st)) \<and>
    (drawing st \<and> fst (deactivateDrawAndPredict env st) = Inr () \<longrightarrow>
      (\<exists>m crop px input out.
         model st = Some m \<and>
         centerCrop env (bitmap (input_canvas st)) = Inr crop \<and>
         drawScaled env crop (scaled_canvas st) = Inr px \<and>
         tensor4d env (tensor_encoder px) [1, 28, 28, 1] = Inr input \<and>
         predict env m input = Inr out \<and>
         calls (snd (deactivateDrawAndPredict env st)) =
           calls st @ [Predict m input, UpdatePredict out]))"
  by (auto simp: deactivateDrawAndPredict_def Let_def getImageData_def
      split: sum.splits option.splits if_splits)

theorem blank_canvas_runs_pipeline_witness:
  "\<exists>m crop px input out.
     model blank_tap = Some m \<and>
     centerCrop env0 (bitmap (input_canvas blank_tap)) = Inr crop \<and>
     drawScaled env0 crop (scaled_canvas blank_tap) = Inr px \<and>
     tensor4d env0 (tensor_encoder px) [1, 28, 28, 1] = Inr input \<and>
     predict env0 m input = Inr out \<and>
     calls (snd (deactivateDrawAndPredict env0 blank_tap)) =
       calls blank_tap @ [Predict m input, UpdatePredict out]"
proof -
  have "drawing blank_tap"
    by (simp add: blank_tap_def activateDraw_def)
  moreover have "fst (deactivateDrawAndPredict env0 blank_tap) = Inr ()"
    by (simp add: blank_tap_run)
  ultimately show ?thesis
    using blank_canvas_runs_pipeline [OF blank_tap_no_ink, of env0] by blast
qed

section \<open>Properties of the load button\<close>

text \<open>
  Claim C8 at the input where the code departs from it. With the dense architecture
  selected and nothing stored, the failed load is caught and a dense model is created
  and trained, but it is saved under the key of the convolutional architecture and
  nothing is stored under the key of the dense one; the train button, for the same
  selection, saves under the key of the dense architecture.
\<close>

theorem load_fallback_saves_under_first_key:
  "fst (loadButtonCallback env0 ''DenseNet'' st0) = Inr () \<and>
   storage (snd (loadButtonCallback env0 ''DenseNet'' st0)) ''indexeddb://my-model-1''
     = Some (train createDenseModel) \<and>
   storage (snd (loadButtonCallback env0 ''DenseNet'' st0)) ''indexeddb://my-model-2''
     = None \<and>
   storage (snd (trainButtonCallback env0 ''DenseNet'' st0)) ''indexeddb://my-model-2''
     = Some (train createDenseModel) \<and>
   storage (snd (trainButtonCallback env0 ''DenseNet'' st0)) ''indexeddb://my-model-1''
     = None"
  by (simp add: loadButtonCallback_def trainButtonCallback_def load_def loadModel_def
      createModel_def save_def showPredictions_def env0_def st0_def Let_def)

section \<open>Properties of the paths to the inference call\<close>

text \<open>
  Claim C3, as stated, fails. With the MNIST data loaded and \<open>model\<close> undefined, the
  predict button's callback completes normally and leaves the page exactly as it was:
  no error state appears. The pointer-up handler ends in the TypeError thrown at
  \<open>model.predict\<close>, which nothing catches. Neither path contains a check of \<open>model\<close>
  or a status message.
\<close>

theorem absent_model_counterexample:
  "model no_model_tap = None \<and>
   mnist_data no_model_tap \<noteq> None \<and>
   predictButtonCallback env0 no_model_tap = (Inr (), no_model_tap) \<and>
   fst (deactivateDrawAndPredict env0 no_model_tap) = Inl TypeError \<and>
   calls (snd (deactivateDrawAndPredict env0 no_model_tap)) = []"
  by (simp add: no_model_tap_def activateDraw_def st0_def predictButtonCallback_def
      showPredictions_def deactivateDrawAndPredict_def getImageData_def env0_def ctx0_def
      tensor_encoder_length)

text \<open>
  Claim C3, amended. While \<open>model\<close> is undefined no call to \<open>predict\<close> is made. A
  pointer-up handler that gets past its \<open>drawing\<close> check ends in an exception; when
  cropping, scaling and encoding succeed it is the TypeError thrown at
  \<open>model.predict\<close>, after the crop and scaled canvases have been written.
  \<open>showPredictions(model)\<close> ends in a TypeError and changes nothing, and the predict
  button's callback, which does not wait for it, completes normally with the page
  unchanged.
\<close>

theorem absent_model_throws:
  assumes "model st = None"
  shows "calls (snd (deactivateDrawAndPredict env st)) = calls st \<and>
    (drawing st \<longrightarrow> (\<exists>e. fst (deactivateDrawAndPredict env st) = Inl e)) \<and>
    (drawing st \<and>
     centerCrop env (bitmap (input_canvas st)) = Inr crop \<and>
     getImageData (bitmap (input_canvas st)) = Inr (bitmap (input_canvas st)) \<and>
     drawScaled env crop (scaled_canvas st) = Inr px \<and>
     tensor4d env (tensor_encoder px) [1, 28, 28, 1] = Inr input \<longrightarrow>
       deactivateDrawAndPredict env st =
         (Inl TypeError,
          st\<lparr>drawing := False, centercrop_canvas := crop,
             scaled_canvas := (scaled_canvas st)\<lparr>data := px\<rparr>\<rparr>)) \<and>
    showPredictions env (model st) st = (Inl TypeError, st) \<and>
    predictButtonCallback env st = (Inr (), st)"
  using assms
  by (auto simp: deactivateDrawAndPredict_def Let_def predictButtonCallback_def
      showPredictions_def split: sum.splits option.splits)

theorem absent_model_throws_witness:
  "deactivateDrawAndPredict env0 no_model_tap =
     (Inl TypeError,
      no_model_tap\<lparr>drawing := False,
        centercrop_canvas := bitmap (input_canvas no_model_tap),
        scaled_canvas := (scaled_canvas no_model_tap)\<lparr>data := replicate 3136 0\<rparr>\<rparr>) \<and>
   showPredictions env0 (model no_model_tap) no_model_tap = (Inl TypeError, no_model_tap) \<and>
   predictButtonCallback env0 no_model_tap = (Inr (), no_model_tap)"
  using absent_model_throws [of no_model_tap env0 "bitmap (input_canvas no_model_tap)"
      "replicate 3136 0" "Tensor [1, 28, 28, 1] (tensor_encoder (replicate 3136 0))"]
  by (simp add: no_model_tap_def activateDraw_def st0_def env0_def ctx0_def
      getImageData_def tensor_encoder_length)


section \<open>The renderer on one-point strokes\<close>

lemma draw_strokes_unfold:
  "draw_strokes env strks s ctx =
     (if s < length strks
      then (case draw_stroke env (strks ! s) ctx of
              (Inl e, ctx1) \<Rightarrow> (Inl e, ctx1)
            | (Inr _, ctx1) \<Rightarrow> draw_strokes env strks (s + 1) ctx1)
      else (Inr (), ctx))"
  by (rule draw_strokes.simps)

declare draw_strokes.simps [simp del]

lemma draw_stroke_render:
  "ps \<noteq> [] \<Longrightarrow> draw_stroke env ps ctx = (Inr (), render_stroke env ctx ps)"
  using draw_stroke_closed [of ps env ctx] by (simp add: render_stroke_def stroke_path_def)

lemma draw_strokes_closed:
  "\<forall>ps\<in>set (drop s ss). ps \<noteq> [] \<Longrightarrow>
   draw_strokes env ss s ctx = (Inr (), foldl (render_stroke env) ctx (drop s ss))"
proof (induction "length ss - s" arbitrary: s ctx)
  case 0
  then show ?case by (subst draw_strokes_unfold) simp
next
  case (Suc n)
  then have lt: "s < length ss" by linarith
  then have d: "drop s ss = ss ! s # drop (Suc s) ss" by (simp add: Cons_nth_drop_Suc)
  with Suc.prems have ne: "ss ! s \<noteq> []" and rest: "\<forall>ps\<in>set (drop (Suc s) ss). ps \<noteq> []"
    by simp_all
  have "draw_strokes env ss s ctx = draw_strokes env ss (Suc s) (render_stroke env ctx (ss ! s))"
    using lt by (subst draw_strokes_unfold) (simp add: draw_stroke_render [OF ne])
  also have "\<dots> = (Inr (), foldl (render_stroke env) (render_stroke env ctx (ss ! s))
                      (drop (Suc s) ss))"
    using Suc.hyps(2) rest by (intro Suc.hyps(1)) simp_all
  finally show ?case by (simp add: d)
qed

lemma draw_closed:
  assumes "drawing st" and "strokes st \<noteq> []" and "\<forall>ps\<in>set (strokes st). ps \<noteq> []"
  shows "draw env e st =
    (Inr (),
     st\<lparr>strokes := butlast (strokes st) @ [last (strokes st) @ [e]],
        input_canvas :=
          foldl (render_stroke env) (clearRect (pen_settings (input_canvas st)))
            (butlast (strokes st) @ [last (strokes st) @ [e]])\<rparr>)"
proof -
  let ?ss = "butlast (strokes st) @ [last (strokes st) @ [e]]"
  have "\<forall>ps\<in>set (drop 0 ?ss). ps \<noteq> []"
    using assms(3) by (auto dest: in_set_butlastD)
  from draw_strokes_closed [OF this]
  have "draw_strokes env ?ss 0 (clearRect (pen_settings (input_canvas st))) =
      (Inr (), foldl (render_stroke env) (clearRect (pen_settings (input_canvas st))) ?ss)"
    by simp
  then show ?thesis
    using assms(1,2) by (simp add: draw_def Let_def pen_settings_def)
qed

lemma stroke_path_single: "stroke_path [p] = [MoveTo p, LineTo p]"
  by (simp add: stroke_path_def)

text \<open>
  Claim C5, as stated, fails. After a tap the session holds a stroke of exactly one
  point, yet no path has been built and the canvas has no ink, before and after the
  pointer-up is handled: pointer-down records the point and renders nothing.
\<close>

theorem lone_tap_counterexample:
  "strokes blank_tap = [[(0, 0)]] \<and>
   no_ink (bitmap (input_canvas blank_tap)) \<and>
   path (input_canvas blank_tap) = [] \<and>
   strokes (snd (deactivateDrawAndPredict env0 blank_tap)) = [[(0, 0)]] \<and>
   no_ink (bitmap (input_canvas (snd (deactivateDrawAndPredict env0 blank_tap))))"
  using blank_tap_no_ink
  by (simp add: blank_tap_run) (simp add: blank_tap_def activateDraw_def st0_def ctx0_def)

text \<open>
  Claim C5, amended. The render loop is total on a stroke of exactly one point \<open>p\<close>:
  the next point is undefined but the curve loop runs no iteration, nothing is thrown,
  and the path handed to \<open>stroke\<close> moves to \<open>p\<close> and draws a line to \<open>p\<close>. What is
  painted for that path is the browser's. Pointer-down and pointer-up leave the drawing
  canvas untouched; the renderer runs only in \<open>draw\<close>, which first appends the new
  point, so the stroke being drawn has at least two points when it is rendered, and
  \<open>draw\<close> renders every stroke of the session in order, with width 20 and round
  caps, a one-point stroke among them only as an earlier stroke.
\<close>

theorem single_point_stroke_render:
  "js_nth [p] 1 = None \<and>
   draw_stroke env [p] ctx = (Inr (), stroke env (ctx\<lparr>path := [MoveTo p, LineTo p]\<rparr>)) \<and>
   render_stroke env ctx [p] = stroke env (ctx\<lparr>path := [MoveTo p, LineTo p]\<rparr>) \<and>
   input_canvas (activateDraw p st) = input_canvas st \<and>
   input_canvas (snd (deactivateDrawAndPredict env st)) = input_canvas st \<and>
   (drawing st \<and> strokes st \<noteq> [] \<and> list_all (\<lambda>ps. ps \<noteq> []) (strokes st) \<longrightarrow>
      2 \<le> length (last (strokes st) @ [e]) \<and>
      draw env e st =
        (Inr (),
         st\<lparr>strokes := butlast (strokes st) @ [last (strokes st) @ [e]],
            input_canvas :=
              foldl (render_stroke env) (clearRect (pen_settings (input_canvas st)))
                (butlast (strokes st) @ [last (strokes st) @ [e]])\<rparr>))"
proof -
  have a: "draw_stroke env [p] ctx = (Inr (), stroke env (ctx\<lparr>path := [MoveTo p, LineTo p]\<rparr>))"
    using draw_stroke_closed [of "[p]" env ctx] by simp
  have b: "input_canvas (snd (deactivateDrawAndPredict env st)) = input_canvas st"
    by (simp add: deactivateDrawAndPredict_def Let_def split: sum.splits option.splits)
  have c: "2 \<le> length (last (strokes st) @ [e])"
    if "strokes st \<noteq> []" "list_all (\<lambda>ps. ps \<noteq> []) (strokes st)"
  proof -
    from that have "last (strokes st) \<noteq> []" by (simp add: list_all_iff)
    then have "1 \<le> length (last (strokes st))" by (cases "last (strokes st)") simp_all
    then show ?thesis by simp
  qed
  have d: "draw env e st =
        (Inr (),
         st\<lparr>strokes := butlast (strokes st) @ [last (strokes st) @ [e]],
            input_canvas :=
              foldl (render_stroke env) (clearRect (pen_settings (input_canvas st)))
                (butlast (strokes st) @ [last (strokes st) @ [e]])\<rparr>)"
    if "drawing st" "strokes st \<noteq> []" "list_all (\<lambda>ps. ps \<noteq> []) (strokes st)"
    using that by (intro draw_closed) (simp_all add: list_all_iff)
  show ?thesis
    using a b c d
    by (simp add: js_nth_def render_stroke_def stroke_path_single activateDraw_def)
qed

lemma tap_then_down_strokes: "strokes tap_then_down = [[(0, 0)], [(1, 1)]]"
  by (simp add: tap_then_down_def blank_tap_run activateDraw_def)
    (simp add: blank_tap_def activateDraw_def st0_def)

theorem single_point_stroke_render_witness:
  "draw env0 (2, 2) tap_then_down =
     (Inr (),
      tap_then_down\<lparr>strokes := [[(0, 0)], [(1, 1), (2, 2)]],
        input_canvas :=
          render_stroke env0
            (stroke env0 ((clearRect (pen_settings (input_canvas tap_then_down)))
               \<lparr>path := [MoveTo (0, 0), LineTo (0, 0)]\<rparr>))
            [(1, 1), (2, 2)]\<rparr>)"
proof -
  have "drawing tap_then_down"
    by (simp add: tap_then_down_def activateDraw_def)
  then show ?thesis
    using single_point_stroke_render [of "(0, 0)" env0
        "clearRect (pen_settings (input_canvas tap_then_down))" tap_then_down "(2, 2)"]
    by (simp add: tap_then_down_strokes)
qed


section \<open>Properties of the debounced handler\<close>

















end
